theory Spec2Isabelle
  imports Complex_Main
begin

section \<open>The floor-map component: data model\<close>

text \<open>
  The component \<^verbatim>\<open>src/components/FloorMap.vue\<close> keeps its state in Vue refs and calls the
  Leaflet library on a map object. The embedding threads one record holding every ref
  through each function of the script. JavaScript numbers are modelled as reals (IEEE
  rounding, NaN and infinities are outside the model). The plain object that the script
  uses as a dictionary (\<^verbatim>\<open>markersRef\<close>) is modelled with its own keys and its prototype,
  so that a lookup also finds inherited members and a store under \<^verbatim>\<open>__proto__\<close>
  replaces the prototype.
  Record fields are global constants in HOL, so the fields of \<^verbatim>\<open>Marker\<close> carry the prefix
  \<open>marker_\<close>, and the refs \<^verbatim>\<open>map\<close> and \<^verbatim>\<open>L\<close> are named after their
  \<^verbatim>\<open>.value\<close>.
\<close>

type_synonym number = real

record marker =
  marker_id :: number
  marker_x :: number
  marker_y :: number
  marker_label :: string

record props =
  floorPlanUrl :: string
  markers :: "marker list"

record latlng =
  lat :: number
  lng :: number

record bounds =
  southWest :: latlng
  northEast :: latlng

record mapBounds =
  bottomLeft :: latlng
  topRight :: latlng

text \<open>The options object \<^verbatim>\<open>{ animate, duration }\<close> of a camera call, when one is passed.\<close>

type_synonym view_options = "bool \<times> number"

text \<open>The camera of the map: the last view request it received.\<close>

datatype camera =
    NoView
  | FitBounds bounds "view_options option"
  | SetView latlng number "view_options option"

datatype layer = ImageOverlayLayer string bounds | MarkerLayerGroup

record leaflet_map =
  minZoom :: number
  maxZoom :: number
  zoomSnap :: number
  maxBoundsViscosity :: number
  view :: camera
  maxBounds :: "bounds option"
  layers :: "layer list"

datatype div_icon = EmptyIcon | DivIcon (className: string) (html: string)

text \<open>
  A marker handle (\<^verbatim>\<open>L.Marker\<close>): its position, its icon and the label its click
  callback passes to \<^verbatim>\<open>handleMarkerClick\<close>.
\<close>

record marker_handle =
  position :: latlng
  icon :: div_icon
  onclick :: string

datatype js_error = TypeError | Error string

text \<open>
  The object behind \<^verbatim>\<open>markersRef\<close>: the handles stored under keys of its own, and its
  prototype, which is \<^verbatim>\<open>Object.prototype\<close> (\<open>None\<close>) unless a marker was stored under
  \<^verbatim>\<open>__proto__\<close>. A lookup returns a marker, \<^verbatim>\<open>undefined\<close>, or a member that is not a
  marker, of which only the truth value matters: it has no \<^verbatim>\<open>getLatLng\<close>.
\<close>

record js_object =
  own :: "string \<rightharpoonup> marker_handle"
  proto :: "marker_handle option"

datatype js_value = Undefined | OtherFalsy | OtherTruthy | MarkerObject marker_handle

datatype js_member = NoMember | FalsyMember | TruthyMember

record state =
  mapContainer :: bool
  map_value :: "leaflet_map option"
  markerLayer :: "marker_handle list option"
  imageOverlay :: "(string \<times> bounds) option"
  isMapInitialized :: bool
  L_value :: bool
  imageHeight :: number
  selectedMarkerLabel :: string
  markersRef :: js_object
  defaultBounds :: "bounds option"
  route_query :: "string option"
  console :: "string list"
  marker_members :: "string \<Rightarrow> js_member"

text \<open>
  The last field is no ref of the script. It is the one part of the Leaflet library,
  absent from src/, that a lookup in \<^verbatim>\<open>markersRef\<close> can reach: what an object made by
  \<^verbatim>\<open>L.marker\<close> answers for a property name, through its fields and the members it
  inherits. No function assigns it, and every statement below holds for every such table.
\<close>

definition empty_object :: js_object where
  "empty_object = \<lparr> own = Map.empty, proto = None \<rparr>"

text \<open>
  The refs as the script initialises them; \<open>route_query\<close> is the key \<^verbatim>\<open>name\<close> of
  \<^verbatim>\<open>route.query\<close>, and \<open>mapContainer\<close> tells whether the template ref is bound.
\<close>

definition initial_state :: "bool \<Rightarrow> string option \<Rightarrow> (string \<Rightarrow> js_member) \<Rightarrow> state" where
  "initial_state container q members =
     \<lparr> mapContainer = container, map_value = None, markerLayer = None,
       imageOverlay = None, isMapInitialized = False, L_value = False,
       imageHeight = 0, selectedMarkerLabel = [], markersRef = empty_object,
       defaultBounds = None, route_query = q, console = [],
       marker_members = members \<rparr>"

section \<open>Property access on the handle mapping\<close>

text \<open>
  The members every plain object inherits from \<^verbatim>\<open>Object.prototype\<close>; all are functions.
  The accessor \<^verbatim>\<open>__proto__\<close> is treated apart.
\<close>

definition Object_prototype_members :: "string list" where
  "Object_prototype_members =
     [''constructor'', ''__defineGetter__'', ''__defineSetter__'', ''hasOwnProperty'',
      ''__lookupGetter__'', ''__lookupSetter__'', ''isPrototypeOf'',
      ''propertyIsEnumerable'', ''toString'', ''valueOf'', ''toLocaleString'']"

text \<open>
  \<^verbatim>\<open>markersRef.value[key]\<close>: a key of the object's own wins; \<^verbatim>\<open>__proto__\<close> reads the
  prototype; any other key is looked up along the prototype chain, which is
  \<^verbatim>\<open>Object.prototype\<close> alone or starts at the marker that was stored as prototype.
\<close>

definition get_property :: "(string \<Rightarrow> js_member) \<Rightarrow> js_object \<Rightarrow> string \<Rightarrow> js_value" where
  "get_property members obj key =
     (case own obj key of
        Some h \<Rightarrow> MarkerObject h
      | None \<Rightarrow>
          if key = ''__proto__''
          then (case proto obj of None \<Rightarrow> OtherTruthy | Some h \<Rightarrow> MarkerObject h)
          else
            (case proto obj of
               None \<Rightarrow> if key \<in> set Object_prototype_members then OtherTruthy else Undefined
             | Some h \<Rightarrow>
                 (case members key of
                    NoMember \<Rightarrow> Undefined
                  | FalsyMember \<Rightarrow> OtherFalsy
                  | TruthyMember \<Rightarrow> OtherTruthy)))"

text \<open>
  \<^verbatim>\<open>markersRef.value[key] = handle\<close>: under \<^verbatim>\<open>__proto__\<close> the inherited setter runs,
  which replaces the prototype and creates no key; any other key becomes or stays a key of
  the object's own, the members of Leaflet's objects being plain writable properties.
\<close>

definition set_property :: "js_object \<Rightarrow> string \<Rightarrow> marker_handle \<Rightarrow> js_object" where
  "set_property obj key h =
     (if key = ''__proto__'' \<and> own obj key = None then obj\<lparr>proto := Some h\<rparr>
      else obj\<lparr>own := (own obj)(key \<mapsto> h)\<rparr>)"

definition markersRef_get :: "state \<Rightarrow> string \<Rightarrow> js_value" where
  "markersRef_get s key = get_property (marker_members s) (markersRef s) key"

section \<open>The Leaflet operations the component calls\<close>

text \<open>
  Modelled from the spec: Leaflet's \<^verbatim>\<open>map.unproject\<close> for the projection
  \<^verbatim>\<open>CRS.Simple\<close> (the spec's "simple/unbounded" projection, "pixel-to-coordinate
  inverse mapping"), which is not under src/. A pixel point \<open>(x, y)\<close> at zoom \<open>z\<close>
  is the coordinate with longitude \<open>x / 2^z\<close> and latitude \<open>- y / 2^z\<close>.
\<close>

definition unproject :: "number \<times> number \<Rightarrow> number \<Rightarrow> latlng" where
  "unproject pt z = \<lparr> lat = - snd pt / 2 powr z, lng = fst pt / 2 powr z \<rparr>"

text \<open>
  Modelled from the spec: the constructor of Leaflet's \<^verbatim>\<open>LatLngBounds\<close>, the spec's
  axis-aligned rectangle in projected space, which is not under src/. The two corners
  are ordered so that the first is the south-west one.
\<close>

definition LatLngBounds :: "latlng \<Rightarrow> latlng \<Rightarrow> bounds" where
  "LatLngBounds a b =
     \<lparr> southWest = \<lparr> lat = min (lat a) (lat b), lng = min (lng a) (lng b) \<rparr>,
       northEast = \<lparr> lat = max (lat a) (lat b), lng = max (lng a) (lng b) \<rparr> \<rparr>"

text \<open>
  Modelled from the spec: the \<^verbatim>\<open>pad(fraction)\<close> expansion of the bounds type, which is
  not under src/. Each side moves outwards by the fraction of the rectangle's extent in
  that direction.
\<close>

definition pad :: "bounds \<Rightarrow> number \<Rightarrow> bounds" where
  "pad b bufferRatio =
     (let sw = southWest b; ne = northEast b;
          heightBuffer = \<bar>lat sw - lat ne\<bar> * bufferRatio;
          widthBuffer = \<bar>lng sw - lng ne\<bar> * bufferRatio
      in LatLngBounds \<lparr> lat = lat sw - heightBuffer, lng = lng sw - widthBuffer \<rparr>
                      \<lparr> lat = lat ne + heightBuffer, lng = lng ne + widthBuffer \<rparr>)"

text \<open>\<^verbatim>\<open>L.map(container, mapOptions)\<close> with the options of \<^verbatim>\<open>initializeMap\<close>.\<close>

definition L_map :: "leaflet_map option" where
  "L_map = Some \<lparr> minZoom = - (6 / 10), maxZoom = 1, zoomSnap = 0,
                  maxBoundsViscosity = 1, view = NoView, maxBounds = None,
                  layers = [] \<rparr>"

text \<open>
  Modelled from the spec: the camera and layer operations of the rendering engine
  (\<^verbatim>\<open>fitBounds\<close>, \<^verbatim>\<open>setView\<close>, \<^verbatim>\<open>setMaxBounds\<close>, adding a layer, reading a marker's
  position), which are not under src/. Each records the request on the map object.
\<close>

definition fitBounds :: "bounds \<Rightarrow> view_options option \<Rightarrow> leaflet_map \<Rightarrow> leaflet_map" where
  "fitBounds b opts m = m\<lparr>view := FitBounds b opts\<rparr>"

definition setView :: "latlng \<Rightarrow> number \<Rightarrow> view_options option \<Rightarrow> leaflet_map \<Rightarrow> leaflet_map" where
  "setView c z opts m = m\<lparr>view := SetView c z opts\<rparr>"

definition setMaxBounds :: "bounds \<Rightarrow> leaflet_map \<Rightarrow> leaflet_map" where
  "setMaxBounds b m = m\<lparr>maxBounds := Some b\<rparr>"

definition addLayer :: "layer \<Rightarrow> leaflet_map \<Rightarrow> leaflet_map" where
  "addLayer l m = m\<lparr>layers := layers m @ [l]\<rparr>"

definition getLatLng :: "marker_handle \<Rightarrow> latlng" where
  "getLatLng h = position h"

section \<open>The functions of the script\<close>

definition setQueryParam :: "string \<Rightarrow> state \<Rightarrow> state" where
  "setQueryParam name s = s\<lparr>route_query := (if name \<noteq> [] then Some name else None)\<rparr>"

text \<open>
  A function that can throw returns the exception, if any, with the state at that
  moment: what was assigned before the throw stays assigned. In
  \<^verbatim>\<open>setStateFromQueryParam\<close> the lookup in \<^verbatim>\<open>markersRef\<close> is not guarded, so calling
  \<^verbatim>\<open>getLatLng\<close> on \<^verbatim>\<open>undefined\<close>, or on any value that is not a marker, is a
  \<^verbatim>\<open>TypeError\<close>.
\<close>

definition setStateFromQueryParam :: "state \<Rightarrow> js_error option \<times> state" where
  "setStateFromQueryParam s =
     (case route_query s of
        None \<Rightarrow> (None, s)
      | Some name \<Rightarrow>
          if name = [] then (None, s)
          else
            let s1 = s\<lparr>selectedMarkerLabel := name\<rparr> in
            (case map_value s1 of
               None \<Rightarrow> (None, s1)
             | Some m \<Rightarrow>
                 (case markersRef_get s1 name of
                    MarkerObject selectedMarker \<Rightarrow>
                      (None, s1\<lparr>map_value :=
                         Some (setView (getLatLng selectedMarker) 1 (Some (True, 1 / 2)) m)\<rparr>)
                  | _ \<Rightarrow> (Some TypeError, s1))))"

definition createMarkerIcon :: "state \<Rightarrow> string \<Rightarrow> bool \<Rightarrow> div_icon" where
  "createMarkerIcon s label isSelected =
     (if \<not> L_value s then EmptyIcon
      else
        let selectedClass = (if isSelected then ''selected'' else [])
        in DivIcon (''custom-marker-icon '' @ selectedClass)
             ([CHR 0x0A] @ ''      <div class='' @ [CHR 0x22] @ ''custom-marker-container ''
                @ selectedClass @ [CHR 0x22] @ ''>'' @ [CHR 0x0A]
              @ ''        <div class='' @ [CHR 0x22] @ ''custom-marker-dot ''
                @ selectedClass @ [CHR 0x22] @ ''></div>'' @ [CHR 0x0A]
              @ ''        <div class='' @ [CHR 0x22] @ ''custom-marker-tooltip ''
                @ selectedClass @ [CHR 0x22] @ ''>'' @ label @ ''</div>'' @ [CHR 0x0A]
              @ ''      </div>'' @ [CHR 0x0A] @ ''    ''))"

definition resetMapView :: "state \<Rightarrow> state" where
  "resetMapView s =
     (case map_value s of
        None \<Rightarrow> s
      | Some m \<Rightarrow>
          (case defaultBounds s of
             None \<Rightarrow> s
           | Some b \<Rightarrow> s\<lparr>map_value := Some (fitBounds b (Some (True, 1 / 2)) m)\<rparr>))"

definition calculateBounds :: "number \<Rightarrow> number \<Rightarrow> leaflet_map \<Rightarrow> mapBounds" where
  "calculateBounds width height m =
     \<lparr> bottomLeft = unproject (0, height) 0, topRight = unproject (width, 0) 0 \<rparr>"

definition transformCoordinates :: "state \<Rightarrow> number \<Rightarrow> number \<Rightarrow> number \<times> number" where
  "transformCoordinates s x y = (x, imageHeight s - y)"

text \<open>
  The callback of \<^verbatim>\<open>props.markers.forEach\<close> in \<^verbatim>\<open>updateMarkers\<close>. Calling
  \<^verbatim>\<open>L.value.marker\<close> on an unset library reference or adding the marker to an unset
  layer is a \<^verbatim>\<open>TypeError\<close>.
\<close>

definition updateMarkers_callback :: "marker \<Rightarrow> state \<Rightarrow> js_error option \<times> state" where
  "updateMarkers_callback mk s =
     (case map_value s of
        None \<Rightarrow> (None, s)
      | Some m \<Rightarrow>
          let (transformedX, transformedY) = transformCoordinates s (marker_x mk) (marker_y mk);
              point = unproject (transformedX, transformedY) 0;
              isSelected = (marker_label mk = selectedMarkerLabel s);
              markerIcon = createMarkerIcon s (marker_label mk) isSelected
          in if \<not> L_value s then (Some TypeError, s)
             else
               (case markerLayer s of
                  None \<Rightarrow> (Some TypeError, s)
                | Some hs \<Rightarrow>
                    let mapMarker = \<lparr> position = point, icon = markerIcon,
                                      onclick = marker_label mk \<rparr>
                    in (None, s\<lparr>markerLayer := Some (hs @ [mapMarker]),
                                markersRef :=
                                  set_property (markersRef s) (marker_label mk) mapMarker\<rparr>)))"

fun forEach :: "(marker \<Rightarrow> state \<Rightarrow> js_error option \<times> state) \<Rightarrow> marker list \<Rightarrow> state
                  \<Rightarrow> js_error option \<times> state" where
  "forEach f [] s = (None, s)"
| "forEach f (mk # mks) s =
     (case f mk s of
        (Some e, s') \<Rightarrow> (Some e, s')
      | (None, s') \<Rightarrow> forEach f mks s')"

definition updateMarkers :: "props \<Rightarrow> state \<Rightarrow> js_error option \<times> state" where
  "updateMarkers p s =
     (if map_value s = None \<or> markerLayer s = None \<or> \<not> L_value s then (None, s)
      else forEach updateMarkers_callback (markers p)
             (s\<lparr>markerLayer := Some [], markersRef := empty_object\<rparr>))"

text \<open>
  In \<^verbatim>\<open>handleMarkerClick\<close> the guard \<^verbatim>\<open>selectedMarker && map.value\<close> lets every truthy
  lookup result through. When the result is a marker the camera moves; when it is an
  inherited member that is not a marker, calling \<^verbatim>\<open>getLatLng\<close> on it is a
  \<^verbatim>\<open>TypeError\<close>, thrown after the selection was assigned and before the write-back and
  the reconciliation.
\<close>

definition handleMarkerClick :: "props \<Rightarrow> string \<Rightarrow> state \<Rightarrow> js_error option \<times> state" where
  "handleMarkerClick p label s =
     (case
        (if selectedMarkerLabel s = label
         then (None, resetMapView (s\<lparr>selectedMarkerLabel := []\<rparr>))
         else
           let s' = s\<lparr>selectedMarkerLabel := label\<rparr>;
               selectedMarker = markersRef_get s' label
           in (case selectedMarker of
                 Undefined \<Rightarrow> (None, s')
               | OtherFalsy \<Rightarrow> (None, s')
               | OtherTruthy \<Rightarrow>
                   (case map_value s' of
                      None \<Rightarrow> (None, s')
                    | Some m \<Rightarrow> (Some TypeError, s'))
               | MarkerObject h \<Rightarrow>
                   (case map_value s' of
                      None \<Rightarrow> (None, s')
                    | Some m \<Rightarrow>
                        (None, s'\<lparr>map_value :=
                           Some (setView (getLatLng h) 1 (Some (True, 1 / 2)) m)\<rparr>))))
      of
        (Some err, s1) \<Rightarrow> (Some err, s1)
      | (None, s1) \<Rightarrow> updateMarkers p (setQueryParam (selectedMarkerLabel s1) s1))"

text \<open>
  What \<^verbatim>\<open>initializeMap\<close> awaits: the two dynamic imports and the image, which loads
  with its width and height, fails, or never settles.
\<close>

datatype image_load = OnLoad nat nat | OnError | NeverSettles

record env =
  leaflet_import :: bool
  css_import :: bool
  image :: image_load

datatype promise = Resolved | Rejected js_error | Pending

text \<open>The body of the \<^verbatim>\<open>try\<close> block of \<^verbatim>\<open>initializeMap\<close>.\<close>

definition initializeMap_try :: "env \<Rightarrow> props \<Rightarrow> state \<Rightarrow> promise \<times> state" where
  "initializeMap_try e p s =
     (if \<not> leaflet_import e then (Rejected (Error ''Cannot find module leaflet''), s)
      else
        let s1 = s\<lparr>L_value := True\<rparr> in
        if \<not> css_import e then (Rejected (Error ''Cannot find module leaflet.css''), s1)
        else
          let s2 = s1\<lparr>map_value := L_map\<rparr> in
          (case map_value s2 of
             None \<Rightarrow> (Rejected (Error ''Map not initialized''), s2)
           | Some m \<Rightarrow>
               (case image e of
                  NeverSettles \<Rightarrow> (Pending, s2)
                | OnError \<Rightarrow> (Rejected (Error ''Failed to load floor plan''), s2)
                | OnLoad width height \<Rightarrow>
                    let s3 = s2\<lparr>imageHeight := real height\<rparr>;
                        mb = calculateBounds (real width) (real height) m;
                        bnds = LatLngBounds (bottomLeft mb) (topRight mb);
                        s4 = s3\<lparr>defaultBounds := Some bnds\<rparr>;
                        padding = 10;
                        maxBnds = pad bnds (padding / max (real width) (real height));
                        m1 = setMaxBounds maxBnds m;
                        m2 = addLayer (ImageOverlayLayer (floorPlanUrl p) bnds) m1;
                        s5 = s4\<lparr>imageOverlay := Some (floorPlanUrl p, bnds)\<rparr>;
                        m3 = addLayer MarkerLayerGroup m2;
                        s6 = s5\<lparr>markerLayer := Some []\<rparr>;
                        m4 = fitBounds bnds None m3;
                        s7 = s6\<lparr>map_value := Some m4\<rparr>
                    in (case updateMarkers p s7 of
                          (Some err, s8) \<Rightarrow> (Rejected err, s8)
                        | (None, s8) \<Rightarrow> (Resolved, s8\<lparr>isMapInitialized := True\<rparr>)))))"

definition initializeMap :: "env \<Rightarrow> props \<Rightarrow> state \<Rightarrow> promise \<times> state" where
  "initializeMap e p s =
     (if \<not> mapContainer s then (Resolved, s)
      else
        (case initializeMap_try e p s of
           (Rejected err, s') \<Rightarrow>
             (Rejected err, s'\<lparr>console := console s' @ [''Error initializing map:'']\<rparr>)
         | r \<Rightarrow> r))"

text \<open>
  The watcher on \<^verbatim>\<open>selectedMarkerLabel\<close>: when the value differs from the one seen
  before, \<^verbatim>\<open>updateMarkers\<close> runs once more.
\<close>

definition watch_selectedMarkerLabel :: "props \<Rightarrow> string \<Rightarrow> state \<Rightarrow> state" where
  "watch_selectedMarkerLabel p old s =
     (if selectedMarkerLabel s = old then s else snd (updateMarkers p s))"

text \<open>
  The \<^verbatim>\<open>onMounted\<close> hook: \<^verbatim>\<open>initializeMap\<close>, then \<^verbatim>\<open>setStateFromQueryParam\<close>; a
  rejection of either is caught and logged.
\<close>

definition onMounted :: "env \<Rightarrow> props \<Rightarrow> state \<Rightarrow> state" where
  "onMounted e p s =
     (case initializeMap e p s of
        (Resolved, s1) \<Rightarrow>
          (case setStateFromQueryParam s1 of
             (None, s2) \<Rightarrow> watch_selectedMarkerLabel p (selectedMarkerLabel s1) s2
           | (Some err, s2) \<Rightarrow>
               watch_selectedMarkerLabel p (selectedMarkerLabel s1)
                 (s2\<lparr>console := console s2 @ [''Failed to initialize map:'']\<rparr>))
      | (Rejected err, s1) \<Rightarrow> s1\<lparr>console := console s1 @ [''Failed to initialize map:'']\<rparr>
      | (Pending, s1) \<Rightarrow> s1)"

text \<open>
  A sequence of clicks on markers or buttons, each followed by the watcher. A click that
  throws leaves the state it had reached, and the watcher runs all the same.
\<close>

fun clicks :: "props \<Rightarrow> string list \<Rightarrow> state \<Rightarrow> state" where
  "clicks p [] s = s"
| "clicks p (label # labels) s =
     clicks p labels
       (watch_selectedMarkerLabel p (selectedMarkerLabel s) (snd (handleMarkerClick p label s)))"

section \<open>Closed forms and predicates used in the statements\<close>

text \<open>
  The handle that the callback of \<^verbatim>\<open>updateMarkers\<close> creates for a marker, the mapping
  that results from storing a list of handles under their labels one after the other, and
  the state a reconciliation pass leaves. They are derived from the functions above
  (lemma \<open>updateMarkers_reconciled\<close>) and only serve to state and prove properties.
\<close>

definition handle_of :: "state \<Rightarrow> marker \<Rightarrow> marker_handle" where
  "handle_of s mk =
     \<lparr> position = unproject (transformCoordinates s (marker_x mk) (marker_y mk)) 0,
       icon = createMarkerIcon s (marker_label mk) (marker_label mk = selectedMarkerLabel s),
       onclick = marker_label mk \<rparr>"

definition register :: "marker_handle list \<Rightarrow> js_object \<Rightarrow> js_object" where
  "register hs obj = fold (\<lambda>h obj'. set_property obj' (onclick h) h) hs obj"

definition reconciled :: "props \<Rightarrow> state \<Rightarrow> state" where
  "reconciled p s =
     (if map_value s = None \<or> markerLayer s = None \<or> \<not> L_value s then s
      else s\<lparr>markerLayer := Some (map (handle_of s) (markers p)),
             markersRef := register (map (handle_of s) (markers p)) empty_object\<rparr>)"

text \<open>
  Whether \<^verbatim>\<open>handleMarkerClick\<close> throws, the state after its \<^verbatim>\<open>if\<close>/\<^verbatim>\<open>else\<close>, and
  the state after the click and the watcher that follows it (lemmas
  \<open>handleMarkerClick_eq\<close> and \<open>clicks_Cons\<close>).
\<close>

definition click_throws :: "string \<Rightarrow> state \<Rightarrow> bool" where
  "click_throws l s \<longleftrightarrow>
     selectedMarkerLabel s \<noteq> l \<and> markersRef_get s l = OtherTruthy \<and> map_value s \<noteq> None"

definition clicked :: "string \<Rightarrow> state \<Rightarrow> state" where
  "clicked l s =
     (if selectedMarkerLabel s = l then resetMapView (s\<lparr>selectedMarkerLabel := []\<rparr>)
      else case markersRef_get s l of
             MarkerObject h \<Rightarrow>
               (case map_value s of
                  None \<Rightarrow> s\<lparr>selectedMarkerLabel := l\<rparr>
                | Some m \<Rightarrow> s\<lparr>selectedMarkerLabel := l,
                              map_value := Some (setView (getLatLng h) 1 (Some (True, 1 / 2)) m)\<rparr>)
           | _ \<Rightarrow> s\<lparr>selectedMarkerLabel := l\<rparr>)"

definition after_click :: "props \<Rightarrow> string \<Rightarrow> state \<Rightarrow> state" where
  "after_click p l s =
     reconciled p
       (if click_throws l s then clicked l s
        else setQueryParam (selectedMarkerLabel (clicked l s)) (clicked l s))"


text \<open>
  The handles on the marker layer, and whether a handle carries the selected styling:
  the class name \<^verbatim>\<open>createMarkerIcon\<close> gives an icon built with \<^verbatim>\<open>isSelected\<close> true.
\<close>

definition layer_handles :: "state \<Rightarrow> marker_handle list" where
  "layer_handles s = (case markerLayer s of None \<Rightarrow> [] | Some hs \<Rightarrow> hs)"

definition selected_styling :: "marker_handle \<Rightarrow> bool" where
  "selected_styling h =
     (case icon h of EmptyIcon \<Rightarrow> False | DivIcon c _ \<Rightarrow> c = ''custom-marker-icon selected'')"

text \<open>
  An outer rectangle strictly contains an inner one on all four sides; a rectangle is
  well formed when its south-west corner is not beyond its north-east corner.
\<close>

definition strictly_contains :: "bounds \<Rightarrow> bounds \<Rightarrow> bool" where
  "strictly_contains outer inner \<longleftrightarrow>
     lat (southWest outer) < lat (southWest inner) \<and>
     lng (southWest outer) < lng (southWest inner) \<and>
     lat (northEast inner) < lat (northEast outer) \<and>
     lng (northEast inner) < lng (northEast outer)"

definition is_rectangle :: "bounds \<Rightarrow> bool" where
  "is_rectangle b \<longleftrightarrow>
     lat (southWest b) \<le> lat (northEast b) \<and> lng (southWest b) \<le> lng (northEast b)"

text \<open>
  The scenario of the specification: markers \<open>A\<close> at \<open>(10, 20)\<close> and \<open>B\<close> at
  \<open>(30, 5)\<close> on an image of 100 by 50 pixels, the state of the component once mounted
  there, and variations of it used as concrete inputs: a table of marker members, marker
  lists with the labels \<^verbatim>\<open>constructor\<close> and \<^verbatim>\<open>__proto__\<close>, an image that fails, and an
  image that is still loading.
\<close>

definition scenario_members :: "string \<Rightarrow> js_member" where
  "scenario_members key =
     (if key = ''getLatLng'' then TruthyMember
      else if key = ''_shadow'' then FalsyMember else NoMember)"

definition marker_A :: marker where
  "marker_A = \<lparr> marker_id = 1, marker_x = 10, marker_y = 20, marker_label = ''A'' \<rparr>"

definition marker_B :: marker where
  "marker_B = \<lparr> marker_id = 2, marker_x = 30, marker_y = 5, marker_label = ''B'' \<rparr>"

definition scenario_props :: props where
  "scenario_props = \<lparr> floorPlanUrl = ''floor.png'', markers = [marker_A, marker_B] \<rparr>"

definition scenario_env :: env where
  "scenario_env = \<lparr> leaflet_import = True, css_import = True, image = OnLoad 100 50 \<rparr>"

definition ready_state :: state where
  "ready_state = onMounted scenario_env scenario_props (initial_state True None scenario_members)"

definition props_only_A :: props where
  "props_only_A = \<lparr> floorPlanUrl = ''floor.png'', markers = [marker_A] \<rparr>"

definition props_empty_label :: props where
  "props_empty_label = \<lparr> floorPlanUrl = ''floor.png'',
     markers = [\<lparr> marker_id = 1, marker_x = 10, marker_y = 20, marker_label = [] \<rparr>] \<rparr>"

definition scenario_bounds :: bounds where
  "scenario_bounds = \<lparr> southWest = \<lparr> lat = - 50, lng = 0 \<rparr>,
                        northEast = \<lparr> lat = 0, lng = 100 \<rparr> \<rparr>"

definition failing_env :: env where
  "failing_env = \<lparr> leaflet_import = True, css_import = True, image = OnError \<rparr>"






section \<open>Reconciliation in closed form\<close>

lemma onclick_handle_of [simp]: "onclick (handle_of s mk) = marker_label mk"
  by (simp add: handle_of_def)

lemma handle_of_frame [simp]:
  "handle_of (s\<lparr>markerLayer := a, markersRef := b\<rparr>) = handle_of s"
  by (rule ext) (simp add: handle_of_def transformCoordinates_def createMarkerIcon_def)

lemma callback_ready:
  assumes "map_value s = Some m" and "L_value s" and "markerLayer s = Some hs"
  shows "updateMarkers_callback mk s =
           (None, s\<lparr>markerLayer := Some (hs @ [handle_of s mk]),
                    markersRef := set_property (markersRef s) (marker_label mk) (handle_of s mk)\<rparr>)"
  using assms
  by (simp add: updateMarkers_callback_def handle_of_def Let_def split: prod.splits)

lemma forEach_ready:
  assumes "map_value s = Some m" and "L_value s" and "markerLayer s = Some hs"
  shows "forEach updateMarkers_callback ms s =
           (None, s\<lparr>markerLayer := Some (hs @ map (handle_of s) ms),
                    markersRef := register (map (handle_of s) ms) (markersRef s)\<rparr>)"
  using assms
proof (induction ms arbitrary: s hs)
  case Nil
  then show ?case by (simp add: register_def)
next
  case (Cons mk ms)
  let ?s1 = "s\<lparr>markerLayer := Some (hs @ [handle_of s mk]),
                markersRef := set_property (markersRef s) (marker_label mk) (handle_of s mk)\<rparr>"
  have step: "updateMarkers_callback mk s = (None, ?s1)"
    using Cons.prems by (rule callback_ready)
  have "forEach updateMarkers_callback ms ?s1 =
          (None, ?s1\<lparr>markerLayer := Some ((hs @ [handle_of s mk]) @ map (handle_of ?s1) ms),
                     markersRef := register (map (handle_of ?s1) ms) (markersRef ?s1)\<rparr>)"
    by (rule Cons.IH) (use Cons.prems in simp_all)
  then show ?case
    using step by (simp add: register_def)
qed

lemma updateMarkers_reconciled: "updateMarkers p s = (None, reconciled p s)"
proof (cases "map_value s = None \<or> markerLayer s = None \<or> \<not> L_value s")
  case True
  then show ?thesis by (simp add: updateMarkers_def reconciled_def)
next
  case False
  then obtain m hs where m: "map_value s = Some m" and hs: "markerLayer s = Some hs" and l: "L_value s"
    by auto
  let ?s0 = "s\<lparr>markerLayer := Some [], markersRef := empty_object\<rparr>"
  have "forEach updateMarkers_callback (markers p) ?s0 =
          (None, ?s0\<lparr>markerLayer := Some ([] @ map (handle_of ?s0) (markers p)),
                     markersRef := register (map (handle_of ?s0) (markers p)) (markersRef ?s0)\<rparr>)"
    by (rule forEach_ready) (use m l in simp_all)
  then show ?thesis
    using m hs l by (simp add: updateMarkers_def reconciled_def)
qed



lemma reconciled_fields [simp]:
  "selectedMarkerLabel (reconciled p s) = selectedMarkerLabel s"
  "route_query (reconciled p s) = route_query s"
  "map_value (reconciled p s) = map_value s"
  "defaultBounds (reconciled p s) = defaultBounds s"
  "imageHeight (reconciled p s) = imageHeight s"
  "isMapInitialized (reconciled p s) = isMapInitialized s"
  "imageOverlay (reconciled p s) = imageOverlay s"
  "L_value (reconciled p s) = L_value s"
  "console (reconciled p s) = console s"
  "mapContainer (reconciled p s) = mapContainer s"
  "marker_members (reconciled p s) = marker_members s"
  by (simp_all add: reconciled_def)

lemma reconciled_markerLayer_None [simp]:
  "markerLayer (reconciled p s) = None \<longleftrightarrow> markerLayer s = None"
  by (simp add: reconciled_def)

lemma reconciled_unready:
  "map_value s = None \<or> markerLayer s = None \<or> \<not> L_value s \<Longrightarrow> reconciled p s = s"
  by (simp add: reconciled_def)

lemma reconciled_ready:
  "map_value s \<noteq> None \<Longrightarrow> markerLayer s \<noteq> None \<Longrightarrow> L_value s \<Longrightarrow>
   reconciled p s = s\<lparr>markerLayer := Some (map (handle_of s) (markers p)),
                      markersRef := register (map (handle_of s) (markers p)) empty_object\<rparr>"
  by (auto simp: reconciled_def)

lemma reconciled_idem: "reconciled p (reconciled p s) = reconciled p s"
proof (cases "map_value s = None \<or> markerLayer s = None \<or> \<not> L_value s")
  case True
  then show ?thesis by (simp add: reconciled_unready)
next
  case False
  then show ?thesis by (auto simp: reconciled_def)
qed

section \<open>Clicks in closed form\<close>

lemma markersRef_get_selection [simp]:
  "markersRef_get (s\<lparr>selectedMarkerLabel := l\<rparr>) k = markersRef_get s k"
  by (simp add: markersRef_get_def)

lemma handleMarkerClick_eq:
  "handleMarkerClick p l s =
     (if click_throws l s then (Some TypeError, clicked l s)
      else (None, reconciled p (setQueryParam (selectedMarkerLabel (clicked l s)) (clicked l s))))"
  by (auto simp: handleMarkerClick_def clicked_def click_throws_def Let_def
      updateMarkers_reconciled split: option.splits js_value.splits)

lemma clicked_selection:
  "selectedMarkerLabel (clicked l s) = (if selectedMarkerLabel s = l then [] else l)"
  by (auto simp: clicked_def resetMapView_def split: option.splits js_value.splits)

lemma handleMarkerClick_selection:
  "selectedMarkerLabel (snd (handleMarkerClick p l s))
     = (if selectedMarkerLabel s = l then [] else l)"
  by (simp add: handleMarkerClick_eq clicked_selection setQueryParam_def)

lemma handleMarkerClick_toggle_off:
  "selectedMarkerLabel s = l \<Longrightarrow> fst (handleMarkerClick p l s) = None"
  by (simp add: handleMarkerClick_eq click_throws_def)

lemma watch_after_click:
  "watch_selectedMarkerLabel p (selectedMarkerLabel s) (snd (handleMarkerClick p l s))
     = after_click p l s"
proof (cases "click_throws l s")
  case True
  then have "selectedMarkerLabel (clicked l s) \<noteq> selectedMarkerLabel s"
    by (auto simp: clicked_selection click_throws_def)
  then show ?thesis
    using True
    by (simp add: watch_selectedMarkerLabel_def handleMarkerClick_eq after_click_def
        updateMarkers_reconciled)
next
  case False
  then show ?thesis
    by (simp add: watch_selectedMarkerLabel_def handleMarkerClick_eq after_click_def
        updateMarkers_reconciled reconciled_idem)
qed

lemma clicks_Cons: "clicks p (l # ls) s = clicks p ls (after_click p l s)"
  by (simp add: watch_after_click)

lemma clicked_fields [simp]:
  "isMapInitialized (clicked l s) = isMapInitialized s"
  "imageHeight (clicked l s) = imageHeight s"
  "defaultBounds (clicked l s) = defaultBounds s"
  "imageOverlay (clicked l s) = imageOverlay s"
  "console (clicked l s) = console s"
  "L_value (clicked l s) = L_value s"
  "markerLayer (clicked l s) = markerLayer s"
  "markersRef (clicked l s) = markersRef s"
  "marker_members (clicked l s) = marker_members s"
  "map_value (clicked l s) = None \<longleftrightarrow> map_value s = None"
  by (auto simp: clicked_def resetMapView_def split: option.splits js_value.splits)

lemma handleMarkerClick_fields [simp]:
  "isMapInitialized (snd (handleMarkerClick p l s)) = isMapInitialized s"
  "imageHeight (snd (handleMarkerClick p l s)) = imageHeight s"
  "defaultBounds (snd (handleMarkerClick p l s)) = defaultBounds s"
  "imageOverlay (snd (handleMarkerClick p l s)) = imageOverlay s"
  "console (snd (handleMarkerClick p l s)) = console s"
  "L_value (snd (handleMarkerClick p l s)) = L_value s"
  "marker_members (snd (handleMarkerClick p l s)) = marker_members s"
  "markerLayer (snd (handleMarkerClick p l s)) = None \<longleftrightarrow> markerLayer s = None"
  "map_value (snd (handleMarkerClick p l s)) = None \<longleftrightarrow> map_value s = None"
  by (simp_all add: handleMarkerClick_eq setQueryParam_def)

lemma after_click_fields [simp]:
  "isMapInitialized (after_click p l s) = isMapInitialized s"
  "imageHeight (after_click p l s) = imageHeight s"
  "defaultBounds (after_click p l s) = defaultBounds s"
  "imageOverlay (after_click p l s) = imageOverlay s"
  "console (after_click p l s) = console s"
  "L_value (after_click p l s) = L_value s"
  "marker_members (after_click p l s) = marker_members s"
  "markerLayer (after_click p l s) = None \<longleftrightarrow> markerLayer s = None"
  "map_value (after_click p l s) = None \<longleftrightarrow> map_value s = None"
  "selectedMarkerLabel (after_click p l s) = (if selectedMarkerLabel s = l then [] else l)"
  by (simp_all add: after_click_def setQueryParam_def clicked_selection)


lemma after_click_unready:
  "markerLayer s = None \<Longrightarrow> markersRef (after_click p l s) = markersRef s"
  by (simp add: after_click_def reconciled_unready setQueryParam_def)

lemma clicks_fields:
  "isMapInitialized (clicks p ls s) = isMapInitialized s
   \<and> imageHeight (clicks p ls s) = imageHeight s
   \<and> defaultBounds (clicks p ls s) = defaultBounds s
   \<and> imageOverlay (clicks p ls s) = imageOverlay s
   \<and> console (clicks p ls s) = console s
   \<and> L_value (clicks p ls s) = L_value s
   \<and> (markerLayer (clicks p ls s) = None \<longleftrightarrow> markerLayer s = None)
   \<and> (map_value (clicks p ls s) = None \<longleftrightarrow> map_value s = None)"
proof (induction ls arbitrary: s)
  case Nil
  then show ?case by simp
next
  case (Cons l ls)
  show ?case
    unfolding clicks_Cons using Cons.IH [of "after_click p l s"] by simp
qed

lemma clicks_unready:
  "markerLayer s = None \<Longrightarrow> markersRef (clicks p ls s) = markersRef s"
proof (induction ls arbitrary: s)
  case Nil
  then show ?case by simp
next
  case (Cons l ls)
  have "markerLayer (after_click p l s) = None"
    using Cons.prems by simp
  then show ?case
    unfolding clicks_Cons using Cons.IH Cons.prems by (simp add: after_click_unready)
qed

section \<open>Concrete evaluation\<close>

lemmas leaflet_defs = unproject_def LatLngBounds_def pad_def L_map_def fitBounds_def
  setView_def setMaxBounds_def addLayer_def getLatLng_def calculateBounds_def

lemmas scenario_defs = marker_A_def marker_B_def scenario_props_def scenario_env_def
  initial_state_def

lemmas object_defs = markersRef_get_def get_property_def set_property_def empty_object_def
  Object_prototype_members_def

lemmas eval_defs = onMounted_def initializeMap_def initializeMap_try_def
  updateMarkers_reconciled reconciled_def setStateFromQueryParam_def
  watch_selectedMarkerLabel_def scenario_defs leaflet_defs handle_of_def register_def
  transformCoordinates_def createMarkerIcon_def Let_def object_defs

lemma ready_state_fields:
  "map_value ready_state \<noteq> None" "markerLayer ready_state \<noteq> None" "L_value ready_state"
  "selectedMarkerLabel ready_state = []" "route_query ready_state = None"
  "defaultBounds ready_state = Some scenario_bounds" "isMapInitialized ready_state"
  "imageHeight ready_state = 50"
  "markersRef_get ready_state ''Z'' = Undefined"
  "markersRef_get ready_state ''toString'' = OtherTruthy"
  "own (markersRef ready_state) ''toString'' = None"
  "map_option view (map_value ready_state) = Some (FitBounds scenario_bounds None)"
  by (simp_all add: ready_state_def eval_defs scenario_bounds_def)

section \<open>Coordinate transformation\<close>

text \<open>
  C1: for every \<open>x\<close>, \<open>y\<close> and captured image height \<open>h\<close> the transformation returns
  \<open>(x, h - y)\<close>; with \<open>h = 50\<close> it maps \<open>(10, 20)\<close> to \<open>(10, 30)\<close> and \<open>(30, 5)\<close> to
  \<open>(30, 45)\<close>. The function returns a pair and no state, and has a value at every input:
  it is pure and total.
\<close>

theorem transformCoordinates_flip:
  "transformCoordinates (s\<lparr>imageHeight := h\<rparr>) x y = (x, h - y)
   \<and> transformCoordinates (s\<lparr>imageHeight := 50\<rparr>) 10 20 = (10, 30)
   \<and> transformCoordinates (s\<lparr>imageHeight := 50\<rparr>) 30 5 = (30, 45)"
  by (simp add: transformCoordinates_def)

section \<open>Restoring the selection from the navigation state\<close>

text \<open>
  C2: with the key \<^verbatim>\<open>name\<close> holding a label at mount, the selection equals that label
  after initialization and no exception is thrown, even when no marker carries the label.
  The code does not do this. With the marker list \<open>[A]\<close> and \<^verbatim>\<open>name = "B"\<close>
  initialization resolves, the lookup of \<open>B\<close> in the registry is \<^verbatim>\<open>undefined\<close>, and
  \<^verbatim>\<open>setStateFromQueryParam\<close> sets the selection to \<open>B\<close> and then throws a
  \<^verbatim>\<open>TypeError\<close>: it calls \<^verbatim>\<open>getLatLng\<close> on the missing handle without the check that
  \<^verbatim>\<open>handleMarkerClick\<close> makes. The \<^verbatim>\<open>catch\<close> of \<^verbatim>\<open>onMounted\<close> logs it.
\<close>

theorem setStateFromQueryParam_absent_label_throws:
  "fst (initializeMap scenario_env props_only_A
          (initial_state True (Some ''B'') scenario_members)) = Resolved
   \<and> markersRef_get (snd (initializeMap scenario_env props_only_A
          (initial_state True (Some ''B'') scenario_members))) ''B'' = Undefined
   \<and> fst (setStateFromQueryParam
        (snd (initializeMap scenario_env props_only_A
           (initial_state True (Some ''B'') scenario_members))))
        = Some TypeError
   \<and> selectedMarkerLabel (snd (setStateFromQueryParam
        (snd (initializeMap scenario_env props_only_A
           (initial_state True (Some ''B'') scenario_members)))))
        = ''B''
   \<and> console (onMounted scenario_env props_only_A
        (initial_state True (Some ''B'') scenario_members))
        = [''Failed to initialize map:'']"
  by (simp add: eval_defs props_only_A_def)

section \<open>Operations before initialization completes\<close>




section \<open>Selecting the same marker twice\<close>

text \<open>
  C4, as amended: in an initialized instance (map handle and \<^verbatim>\<open>defaultBounds\<close> set), for
  every label of the marker list that is not the current selection, two clicks on it in
  succession, with only the watcher between them, leave the selection empty and the
  camera fitted to \<^verbatim>\<open>defaultBounds\<close> with animation. The second click throws nothing; the
  first throws exactly when the lookup of the label yields an inherited member that is
  no marker, and then the selection is set all the same.
\<close>

theorem selectMarker_twice_clears:
  assumes "l \<in> marker_label ` set (markers p)" and "selectedMarkerLabel s \<noteq> l"
    and "map_value s \<noteq> None" and "defaultBounds s = Some b"
  shows "selectedMarkerLabel (clicks p [l, l] s) = []
   \<and> map_option view (map_value (clicks p [l, l] s)) = Some (FitBounds b (Some (True, 1 / 2)))
   \<and> fst (handleMarkerClick p l s)
        = (if markersRef_get s l = OtherTruthy then Some TypeError else None)
   \<and> fst (handleMarkerClick p l (snd (handleMarkerClick p l s))) = None"
proof -
  let ?s1 = "after_click p l s"
  have s1: "selectedMarkerLabel ?s1 = l" "defaultBounds ?s1 = Some b" "map_value ?s1 \<noteq> None"
    using assms(2-4) by simp_all
  then obtain m1 where m1: "map_value ?s1 = Some m1" by blast
  have n: "\<not> click_throws l ?s1"
    using s1(1) by (simp add: click_throws_def)
  let ?s2 = "after_click p l ?s1"
  have "selectedMarkerLabel ?s2 = []"
    "map_option view (map_value ?s2) = Some (FitBounds b (Some (True, 1 / 2)))"
    using s1(1,2) m1 n
    by (simp_all add: after_click_def [of p l ?s1] clicked_def setQueryParam_def
        resetMapView_def fitBounds_def)
  moreover have "clicks p [l, l] s = ?s2"
    by (simp only: clicks_Cons clicks.simps(1))
  moreover have "fst (handleMarkerClick p l s)
        = (if markersRef_get s l = OtherTruthy then Some TypeError else None)"
    using assms(2,3) by (simp add: handleMarkerClick_eq click_throws_def)
  moreover have "fst (handleMarkerClick p l (snd (handleMarkerClick p l s))) = None"
    using assms(2) by (simp add: handleMarkerClick_toggle_off handleMarkerClick_selection)
  ultimately show ?thesis
    by simp
qed

text \<open>
  The claim as stated fails when the label is the current selection: in the scenario,
  with \<open>A\<close> selected, two more clicks on \<open>A\<close> leave \<open>A\<close> selected and the camera
  centred on the marker, since the first click takes the toggle-off branch and the second
  selects again.
\<close>

theorem selectMarker_twice_counterexample:
  "''A'' \<in> marker_label ` set (markers scenario_props)
   \<and> selectedMarkerLabel (snd (handleMarkerClick scenario_props ''A'' ready_state)) = ''A''
   \<and> selectedMarkerLabel
        (clicks scenario_props [''A'', ''A'']
           (snd (handleMarkerClick scenario_props ''A'' ready_state))) = ''A''
   \<and> map_option view (map_value
        (clicks scenario_props [''A'', ''A'']
           (snd (handleMarkerClick scenario_props ''A'' ready_state))))
        = Some (SetView \<lparr> lat = - 30, lng = 10 \<rparr> 1 (Some (True, 1 / 2)))"
proof -
  define s1 where "s1 = snd (handleMarkerClick scenario_props ''A'' ready_state)"
  define s2 where "s2 = after_click scenario_props ''A'' s1"
  define s3 where "s3 = after_click scenario_props ''A'' s2"
  have c: "clicks scenario_props [''A'', ''A''] s1 = s3"
    unfolding s3_def s2_def by (simp only: clicks_Cons clicks.simps(1))
  have f1: "selectedMarkerLabel s1 = ''A''" "L_value s1" "map_value s1 \<noteq> None"
    "markerLayer s1 \<noteq> None" "imageHeight s1 = 50"
    unfolding s1_def by (simp_all add: handleMarkerClick_selection ready_state_fields)
  have n1: "\<not> click_throws ''A'' s1"
    using f1(1) by (simp add: click_throws_def)
  have f2: "selectedMarkerLabel s2 = []" "map_value s2 \<noteq> None"
    "marker_members s2 = marker_members s1"
    unfolding s2_def using f1 by simp_all
  obtain m1 hs1 where g1: "map_value s1 = Some m1" "markerLayer s1 = Some hs1"
    using f1 by auto
  have r2: "map_option position (own (markersRef s2) ''A'') = Some \<lparr> lat = - 30, lng = 10 \<rparr>"
    unfolding s2_def using f1(1,2,5) g1 n1
    by (simp add: after_click_def clicked_def resetMapView_def setQueryParam_def
        reconciled_def register_def set_property_def empty_object_def handle_of_def
        transformCoordinates_def unproject_def
        scenario_props_def marker_A_def marker_B_def split: option.splits)
  obtain m where m: "map_value s2 = Some m"
    using f2 by auto
  obtain h where h: "own (markersRef s2) ''A'' = Some h"
    "position h = \<lparr> lat = - 30, lng = 10 \<rparr>"
    using r2 by auto
  have g2: "markersRef_get s2 ''A'' = MarkerObject h"
    using h(1) by (simp add: markersRef_get_def get_property_def)
  have n2: "\<not> click_throws ''A'' s2"
    using g2 by (simp add: click_throws_def)
  have f3: "selectedMarkerLabel s3 = ''A''"
    unfolding s3_def using f2 by simp
  have v3: "map_option view (map_value s3)
              = Some (SetView \<lparr> lat = - 30, lng = 10 \<rparr> 1 (Some (True, 1 / 2)))"
    unfolding s3_def using f2(1) m h(2) g2 n2
    by (simp add: after_click_def clicked_def setQueryParam_def setView_def getLatLng_def)
  have "''A'' \<in> marker_label ` set (markers scenario_props)"
    by (simp add: scenario_props_def marker_A_def marker_B_def)
  then show ?thesis
    using f1(1) f3 v3 unfolding c [unfolded s1_def] s1_def [symmetric] c
    by blast
qed

theorem selectMarker_twice_clears_witness:
  "''A'' \<in> marker_label ` set (markers scenario_props)
   \<and> selectedMarkerLabel ready_state \<noteq> ''A''
   \<and> map_value ready_state \<noteq> None
   \<and> defaultBounds ready_state = Some scenario_bounds
   \<and> selectedMarkerLabel (clicks scenario_props [''A'', ''A''] ready_state) = []
   \<and> map_option view (map_value (clicks scenario_props [''A'', ''A''] ready_state))
        = Some (FitBounds scenario_bounds (Some (True, 1 / 2)))"
proof -
  have a: "''A'' \<in> marker_label ` set (markers scenario_props)"
    by (simp add: scenario_props_def marker_A_def marker_B_def)
  have b: "selectedMarkerLabel ready_state \<noteq> ''A''"
    by (simp add: ready_state_fields)
  have c: "map_value ready_state \<noteq> None"
    by (simp add: ready_state_fields)
  have d: "defaultBounds ready_state = Some scenario_bounds"
    by (simp add: ready_state_fields)
  from selectMarker_twice_clears [OF a b c d] a b c d show ?thesis
    by blast
qed

section \<open>Reconciliation\<close>




section \<open>Lookup miss on a click\<close>




section \<open>Bounds\<close>

lemma pad_strict:
  assumes "0 < w" and "0 < h"
  shows "strictly_contains
           (pad (LatLngBounds (unproject (0, h) 0) (unproject (w, 0) 0)) (10 / max w h))
           (LatLngBounds (unproject (0, h) 0) (unproject (w, 0) 0))
   \<and> is_rectangle (LatLngBounds (unproject (0, h) 0) (unproject (w, 0) 0))
   \<and> is_rectangle (pad (LatLngBounds (unproject (0, h) 0) (unproject (w, 0) 0)) (10 / max w h))"
proof -
  define r where "r = 10 / max w h"
  have r: "0 < r" using assms by (simp add: r_def)
  have hr: "0 < h * r" "0 < r * h" and wr: "0 < w * r" "0 < r * w"
    using assms r by simp_all
  show ?thesis
    unfolding r_def [symmetric]
    using assms hr wr
    by (simp add: strictly_contains_def is_rectangle_def pad_def LatLngBounds_def
        unproject_def Let_def min_def max_def)
qed

text \<open>
  C7: for an image of positive width and height, a successful \<^verbatim>\<open>initializeMap\<close> stores
  as default bounds the rectangle of the image, clamps the map to that rectangle padded
  by \<open>10 / max width height\<close>, and the padded rectangle strictly contains the default
  bounds on all four sides; both are well-formed rectangles.
\<close>

theorem maxBounds_contains_defaultBounds:
  assumes "0 < w" and "0 < h" and "mapContainer s" and "leaflet_import e"
    and "css_import e" and "image e = OnLoad w h"
  shows "fst (initializeMap e p s) = Resolved
   \<and> defaultBounds (snd (initializeMap e p s))
        = Some (LatLngBounds (unproject (0, real h) 0) (unproject (real w, 0) 0))
   \<and> map_option maxBounds (map_value (snd (initializeMap e p s)))
        = Some (Some (pad (LatLngBounds (unproject (0, real h) 0) (unproject (real w, 0) 0))
                       (10 / max (real w) (real h))))
   \<and> strictly_contains
        (pad (LatLngBounds (unproject (0, real h) 0) (unproject (real w, 0) 0))
           (10 / max (real w) (real h)))
        (LatLngBounds (unproject (0, real h) 0) (unproject (real w, 0) 0))
   \<and> is_rectangle (LatLngBounds (unproject (0, real h) 0) (unproject (real w, 0) 0))
   \<and> is_rectangle
        (pad (LatLngBounds (unproject (0, real h) 0) (unproject (real w, 0) 0))
           (10 / max (real w) (real h)))"
proof -
  have a: "fst (initializeMap e p s) = Resolved"
    using assms(3-6)
    by (simp add: initializeMap_def initializeMap_try_def L_map_def Let_def
        updateMarkers_reconciled)
  have b: "defaultBounds (snd (initializeMap e p s))
        = Some (LatLngBounds (unproject (0, real h) 0) (unproject (real w, 0) 0))"
    using assms(3-6)
    by (simp add: initializeMap_def initializeMap_try_def L_map_def Let_def
        updateMarkers_reconciled calculateBounds_def)
  have c: "map_option maxBounds (map_value (snd (initializeMap e p s)))
        = Some (Some (pad (LatLngBounds (unproject (0, real h) 0) (unproject (real w, 0) 0))
                       (10 / max (real w) (real h))))"
    using assms(3-6)
    by (simp add: initializeMap_def initializeMap_try_def L_map_def Let_def
        updateMarkers_reconciled calculateBounds_def setMaxBounds_def addLayer_def
        fitBounds_def)
  have "0 < real w" "0 < real h" using assms(1,2) by simp_all
  from pad_strict [OF this] a b c show ?thesis by simp
qed

theorem maxBounds_contains_defaultBounds_witness:
  "(0::nat) < 100 \<and> (0::nat) < 50 \<and> mapContainer (initial_state True None scenario_members)
   \<and> leaflet_import scenario_env \<and> css_import scenario_env
   \<and> image scenario_env = OnLoad 100 50
   \<and> defaultBounds (snd (initializeMap scenario_env scenario_props (initial_state True None scenario_members)))
        = Some scenario_bounds
   \<and> map_option maxBounds
        (map_value (snd (initializeMap scenario_env scenario_props (initial_state True None scenario_members))))
        = Some (Some \<lparr> southWest = \<lparr> lat = - 55, lng = - 10 \<rparr>,
                       northEast = \<lparr> lat = 5, lng = 110 \<rparr> \<rparr>)
   \<and> strictly_contains \<lparr> southWest = \<lparr> lat = - 55, lng = - 10 \<rparr>,
                          northEast = \<lparr> lat = 5, lng = 110 \<rparr> \<rparr> scenario_bounds"
proof -
  have a: "(0::nat) < 100" and b: "(0::nat) < 50"
    by simp_all
  have c: "mapContainer (initial_state True None scenario_members)"
    by (simp add: initial_state_def)
  have d: "leaflet_import scenario_env" and e: "css_import scenario_env"
    and f: "image scenario_env = OnLoad 100 50"
    by (simp_all add: scenario_env_def)
  have g: "LatLngBounds (unproject (0, real 50) 0) (unproject (real 100, 0) 0) = scenario_bounds"
    by (simp add: LatLngBounds_def unproject_def scenario_bounds_def)
  have h: "pad scenario_bounds (10 / max (real 100) (real 50))
             = \<lparr> southWest = \<lparr> lat = - 55, lng = - 10 \<rparr>,
                 northEast = \<lparr> lat = 5, lng = 110 \<rparr> \<rparr>"
    by (simp add: pad_def LatLngBounds_def scenario_bounds_def)
  from maxBounds_contains_defaultBounds [OF a b c d e f, of scenario_props] a b c d e f
  show ?thesis
    unfolding g h by blast
qed

section \<open>Failure of the image\<close>

lemma initializeMap_OnError:
  assumes "leaflet_import e" and "css_import e" and "image e = OnError"
  shows "initializeMap e p (initial_state True q mm) =
           (Rejected (Error ''Failed to load floor plan''),
            (initial_state True q mm)\<lparr>L_value := True, map_value := L_map,
                                    console := [''Error initializing map:'']\<rparr>)"
  using assms
  by (simp add: initializeMap_def initializeMap_try_def initial_state_def L_map_def)

text \<open>
  C8: when the image fails to load, \<^verbatim>\<open>initializeMap\<close> rejects with that error and logs
  it once, \<^verbatim>\<open>onMounted\<close> logs the rejection once and does not restore a selection, and
  after any sequence of clicks the component is still not initialized: no image height,
  no bounds, no image overlay, no marker layer and no handle.
\<close>

theorem image_load_failure:
  assumes "leaflet_import e" and "css_import e" and "image e = OnError"
  shows "fst (initializeMap e p (initial_state True q mm))
           = Rejected (Error ''Failed to load floor plan'')
   \<and> console (snd (initializeMap e p (initial_state True q mm))) = [''Error initializing map:'']
   \<and> console (onMounted e p (initial_state True q mm))
        = [''Error initializing map:'', ''Failed to initialize map:'']
   \<and> selectedMarkerLabel (onMounted e p (initial_state True q mm)) = []
   \<and> \<not> isMapInitialized (clicks p ls (onMounted e p (initial_state True q mm)))
   \<and> imageHeight (clicks p ls (onMounted e p (initial_state True q mm))) = 0
   \<and> defaultBounds (clicks p ls (onMounted e p (initial_state True q mm))) = None
   \<and> imageOverlay (clicks p ls (onMounted e p (initial_state True q mm))) = None
   \<and> markerLayer (clicks p ls (onMounted e p (initial_state True q mm))) = None
   \<and> markersRef (clicks p ls (onMounted e p (initial_state True q mm))) = empty_object"
proof -
  let ?s0 = "initial_state True q mm"
  let ?s1 = "onMounted e p ?s0"
  have i: "initializeMap e p ?s0 =
             (Rejected (Error ''Failed to load floor plan''),
              ?s0\<lparr>L_value := True, map_value := L_map,
                   console := [''Error initializing map:'']\<rparr>)"
    using assms by (rule initializeMap_OnError)
  have m: "?s1 = ?s0\<lparr>L_value := True, map_value := L_map,
                      console := [''Error initializing map:'', ''Failed to initialize map:'']\<rparr>"
    by (simp add: onMounted_def i)
  have f: "\<not> isMapInitialized ?s1" "imageHeight ?s1 = 0" "defaultBounds ?s1 = None"
    "imageOverlay ?s1 = None" "markerLayer ?s1 = None" "markersRef ?s1 = empty_object"
    "selectedMarkerLabel ?s1 = []"
    "console ?s1 = [''Error initializing map:'', ''Failed to initialize map:'']"
    unfolding m by (simp_all add: initial_state_def)
  have "markersRef (clicks p ls ?s1) = empty_object"
    using clicks_unready [OF f(5), of p ls] f(6) by simp
  then show ?thesis
    using clicks_fields [of p ls ?s1] f i by simp
qed

theorem image_load_failure_witness:
  "leaflet_import failing_env \<and> css_import failing_env \<and> image failing_env = OnError
   \<and> fst (initializeMap failing_env scenario_props (initial_state True (Some ''B'') scenario_members))
        = Rejected (Error ''Failed to load floor plan'')
   \<and> \<not> isMapInitialized
         (clicks scenario_props [''A''] (onMounted failing_env scenario_props
            (initial_state True (Some ''B'') scenario_members)))
   \<and> markersRef
         (clicks scenario_props [''A''] (onMounted failing_env scenario_props
            (initial_state True (Some ''B'') scenario_members))) = empty_object"
proof -
  have a: "leaflet_import failing_env" and b: "css_import failing_env"
    and c: "image failing_env = OnError"
    by (simp_all add: failing_env_def)
  from image_load_failure [OF a b c, of scenario_props "Some ''B''" scenario_members "[''A'']"] a b c
  show ?thesis
    by blast
qed

section \<open>Selection exclusivity\<close>

lemma selected_styling_handle_of:
  "L_value s \<Longrightarrow> selected_styling (handle_of s mk) \<longleftrightarrow> marker_label mk = selectedMarkerLabel s"
  by (simp add: selected_styling_def handle_of_def createMarkerIcon_def)

lemma length_filter_distinct:
  "distinct (map f xs) \<Longrightarrow> length (filter (\<lambda>x. f x = a) xs) = (if a \<in> f ` set xs then 1 else 0)"
  by (induction xs) auto

text \<open>
  C9, as amended: with unique labels, after any sequence of clicks followed by a
  reconciliation, a handle carries the selected styling exactly when its label equals
  the selection string, and the number of such handles is one when the marker layer
  exists and the selection string is a label of the marker list, and zero otherwise. So
  no handle is styled when the selection is empty and no marker has the empty label.
\<close>

theorem selection_exclusive:
  assumes "distinct (map marker_label (markers p))"
    and "markerLayer s = None \<or> map_value s \<noteq> None \<and> L_value s"
  shows "(\<forall>h \<in> set (layer_handles (snd (updateMarkers p (clicks p ls s)))).
            selected_styling h
              \<longleftrightarrow> onclick h = selectedMarkerLabel (snd (updateMarkers p (clicks p ls s))))
   \<and> length (filter selected_styling (layer_handles (snd (updateMarkers p (clicks p ls s)))))
        = (if markerLayer s \<noteq> None
              \<and> selectedMarkerLabel (snd (updateMarkers p (clicks p ls s)))
                   \<in> marker_label ` set (markers p)
           then 1 else 0)"
proof -
  let ?t = "clicks p ls s"
  have u: "snd (updateMarkers p ?t) = reconciled p ?t"
    by (simp add: updateMarkers_reconciled)
  show ?thesis
  proof (cases "markerLayer s = None")
    case True
    then have "markerLayer ?t = None" using clicks_fields [of p ls s] by simp
    then show ?thesis
      using True by (simp add: u reconciled_unready layer_handles_def)
  next
    case False
    then have t: "map_value ?t \<noteq> None" "markerLayer ?t \<noteq> None" "L_value ?t"
      using assms(2) clicks_fields [of p ls s] by auto
    have hs: "layer_handles (reconciled p ?t) = map (handle_of ?t) (markers p)"
      using t by (simp add: reconciled_ready layer_handles_def)
    have flt: "filter selected_styling (map (handle_of ?t) (markers p))
             = map (handle_of ?t)
                 (filter (\<lambda>mk. marker_label mk = selectedMarkerLabel ?t) (markers p))"
      using t(3) by (simp add: filter_map comp_def selected_styling_handle_of)
    show ?thesis
      using False t(3) assms(1)
      by (auto simp: u hs flt selected_styling_handle_of length_filter_distinct)
  qed
qed

text \<open>
  The claim as stated fails for a marker whose label is the empty string: the empty
  selection is the empty string too, so with nothing selected that marker's handle
  carries the selected styling.
\<close>

theorem selection_exclusive_counterexample:
  "distinct (map marker_label (markers props_empty_label))
   \<and> selectedMarkerLabel
        (snd (updateMarkers props_empty_label
           (onMounted scenario_env props_empty_label (initial_state True None scenario_members)))) = []
   \<and> map selected_styling
        (layer_handles (snd (updateMarkers props_empty_label
           (onMounted scenario_env props_empty_label (initial_state True None scenario_members))))) = [True]"
  by (simp add: eval_defs props_empty_label_def layer_handles_def selected_styling_def)

theorem selection_exclusive_witness:
  "distinct (map marker_label (markers scenario_props))
   \<and> (markerLayer ready_state = None \<or> map_value ready_state \<noteq> None \<and> L_value ready_state)
   \<and> selectedMarkerLabel
        (snd (updateMarkers scenario_props (clicks scenario_props [''A'', ''B''] ready_state)))
        = ''B''
   \<and> length (filter selected_styling (layer_handles
        (snd (updateMarkers scenario_props (clicks scenario_props [''A'', ''B''] ready_state)))))
        = 1"
proof -
  have c: "clicks scenario_props [''A'', ''B''] ready_state
         = after_click scenario_props ''B'' (after_click scenario_props ''A'' ready_state)"
    by (simp only: clicks_Cons clicks.simps(1))
  have s: "selectedMarkerLabel
        (snd (updateMarkers scenario_props (clicks scenario_props [''A'', ''B''] ready_state)))
        = ''B''"
    unfolding c by (simp add: updateMarkers_reconciled)
  have d: "distinct (map marker_label (markers scenario_props))"
    by (simp add: scenario_props_def marker_A_def marker_B_def)
  have g: "markerLayer ready_state = None \<or> map_value ready_state \<noteq> None \<and> L_value ready_state"
    by (simp add: ready_state_fields)
  have n: "markerLayer ready_state \<noteq> None"
    by (simp add: ready_state_fields)
  have m: "''B'' \<in> marker_label ` set (markers scenario_props)"
    by (simp add: scenario_props_def marker_A_def marker_B_def)
  from selection_exclusive [OF d g, of "[''A'', ''B'']", THEN conjunct2]
  have "length (filter selected_styling (layer_handles
        (snd (updateMarkers scenario_props (clicks scenario_props [''A'', ''B''] ready_state)))))
        = 1"
    unfolding s using n m by (simp del: clicks.simps)
  with s d g show ?thesis
    by blast
qed

section \<open>Frame of a reconciliation\<close>

text \<open>
  C10: \<^verbatim>\<open>updateMarkers\<close> changes neither the selection nor the navigation-state key.
\<close>

theorem updateMarkers_keeps_selection:
  "selectedMarkerLabel (snd (updateMarkers p s)) = selectedMarkerLabel s
   \<and> route_query (snd (updateMarkers p s)) = route_query s"
  by (simp add: updateMarkers_reconciled)

theorem updateMarkers_keeps_selection_witness:
  "selectedMarkerLabel
     (snd (updateMarkers scenario_props (ready_state\<lparr>selectedMarkerLabel := ''A''\<rparr>))) = ''A''
   \<and> route_query
     (snd (updateMarkers scenario_props (ready_state\<lparr>selectedMarkerLabel := ''A''\<rparr>))) = None"
proof -
  note t = updateMarkers_keeps_selection
    [of scenario_props "ready_state\<lparr>selectedMarkerLabel := ''A''\<rparr>"]
  have "route_query (ready_state\<lparr>selectedMarkerLabel := ''A''\<rparr>) = None"
    by (simp add: ready_state_fields)
  with t show ?thesis
    by simp
qed

end
